theory Spec2Isabelle
  imports Complex_Main
begin

section \<open>The metrics service of \<open>src/app/main.py\<close>\<close>

text \<open>
  The module declares three Prometheus metrics at import time and three request handlers.
  The handlers mutate module-level metric objects; here the three objects form an explicit
  state that every handler takes and returns. Metric values are Python floats in the
  client library; they are idealised as reals, and so is the clock reading.
\<close>

subsection \<open>JSON payloads\<close>

text \<open>
  The body of \<open>POST /submit\<close> reaches the handler as a Python \<open>dict\<close> decoded from
  JSON. A dict is kept as an association list in insertion order; \<open>not data\<close> holds for
  the dict without entries only.
\<close>

datatype json =
    JNull
  | JBool bool
  | JInt int
  | JFloat real
  | JStr string
  | JArr "json list"
  | JObj "(string \<times> json) list"

type_synonym dict = "(string \<times> json) list"

subsection \<open>Metrics\<close>

datatype kind = KCounter | KGauge

record metric =
  name :: string
  documentation :: string
  kind :: kind
  val :: real

text \<open>
  Modelled from the spec: the classes \<open>Counter\<close> and \<open>Gauge\<close> of the client library are
  not under \<open>src/\<close>. A counter or gauge is a named metric with a help string and a numeric
  value initialised to 0; \<open>inc\<close> adds the default delta 1 to a counter, \<open>set\<close> replaces
  the value of a gauge.
\<close>

definition Counter :: "string \<Rightarrow> string \<Rightarrow> metric" where
  "Counter n d = \<lparr>name = n, documentation = d, kind = KCounter, val = 0\<rparr>"

definition Gauge :: "string \<Rightarrow> string \<Rightarrow> metric" where
  "Gauge n d = \<lparr>name = n, documentation = d, kind = KGauge, val = 0\<rparr>"

definition Counter_inc :: "metric \<Rightarrow> metric" where
  "Counter_inc m = m\<lparr>val := val m + 1\<rparr>"

definition Gauge_set :: "metric \<Rightarrow> real \<Rightarrow> metric" where
  "Gauge_set m v = m\<lparr>val := v\<rparr>"

text \<open>The three module-level metric objects (lines 10 to 12).\<close>

record registry =
  REQUEST_COUNT :: metric
  POST_REQUEST_COUNT :: metric
  RANDOM_GAUGE :: metric

definition startup :: registry where
  "startup =
     \<lparr>REQUEST_COUNT = Counter ''request_count'' ''Total request count'',
      POST_REQUEST_COUNT = Counter ''post_request_count'' ''Total POST request count'',
      RANDOM_GAUGE = Gauge ''random_gauge'' ''A random gauge value''\<rparr>"

text \<open>The metrics in declaration order, as a scrape reads them.\<close>

definition collect :: "registry \<Rightarrow> metric list" where
  "collect s = [REQUEST_COUNT s, POST_REQUEST_COUNT s, RANDOM_GAUGE s]"

subsection \<open>Python's \<open>%\<close> on floats\<close>

text \<open>
  \<open>x % y\<close> takes the sign of the divisor: it is \<open>x - y * floor (x / y)\<close>. On floats the
  operation is exact for \<open>x \<ge> 0\<close> and \<open>y > 0\<close>, which is where \<open>time.time()\<close> lives
  for every clock set after the epoch. For a negative \<open>x\<close> the float result is rounded
  and this definition is not the code; every statement below that uses it assumes
  \<open>0 \<le> x\<close>.
\<close>

definition py_mod :: "real \<Rightarrow> real \<Rightarrow> real" where
  "py_mod x y = x - y * of_int \<lfloor>x / y\<rfloor>"

subsection \<open>Handlers\<close>

record HTTPException =
  status_code :: nat
  detail :: string

record Response =
  content :: string
  media_type :: string

text \<open>
  \<open>GET /\<close> (lines 14 to 18). The argument \<open>now\<close> is the value \<open>time.time()\<close> returns
  during the call.
\<close>

definition root_handler :: "real \<Rightarrow> registry \<Rightarrow> dict \<times> registry" where
  "root_handler now s =
     (let s1 = s\<lparr>REQUEST_COUNT := Counter_inc (REQUEST_COUNT s)\<rparr>;
          s2 = s1\<lparr>RANDOM_GAUGE := Gauge_set (RANDOM_GAUGE s1) (py_mod now 60)\<rparr>
      in ([(''message'', JStr ''Hello World'')], s2))"

text \<open>\<open>POST /submit\<close> (lines 20 to 28). The raised exception is the left summand.\<close>

definition submit :: "dict \<Rightarrow> registry \<Rightarrow> (HTTPException + dict) \<times> registry" where
  "submit data s =
     (if data = [] then
        (Inl \<lparr>status_code = 400, detail = ''No data provided''\<rparr>, s)
      else
        (Inr [(''received_data'', JObj data)],
         s\<lparr>POST_REQUEST_COUNT := Counter_inc (POST_REQUEST_COUNT s)\<rparr>))"

text \<open>
  Modelled from the spec: the web framework's mapping from a handler's outcome to the
  HTTP status is not under \<open>src/\<close>. A returned body is sent with status 200, a raised
  \<open>HTTPException\<close> with its own status code.
\<close>

definition http_status :: "HTTPException + dict \<Rightarrow> nat" where
  "http_status r = (case r of Inl e \<Rightarrow> status_code e | Inr b \<Rightarrow> 200)"

text \<open>
  Modelled from the spec: \<open>generate_latest\<close> and \<open>CONTENT_TYPE_LATEST\<close> of the client
  library are not under \<open>src/\<close>. Rendering is a read of the registered metrics in a
  stable order and has no effect on them. The text format and the content type are what
  the installed library makes them, so they are parameters here.
\<close>

record exposition =
  text_format :: "metric list \<Rightarrow> string"
  CONTENT_TYPE_LATEST :: string

definition generate_latest :: "exposition \<Rightarrow> registry \<Rightarrow> string" where
  "generate_latest lib s = text_format lib (collect s)"

text \<open>\<open>GET /metrics\<close> (lines 30 to 32).\<close>

definition metrics :: "exposition \<Rightarrow> registry \<Rightarrow> Response \<times> registry" where
  "metrics lib s =
     (\<lparr>content = generate_latest lib s, media_type = CONTENT_TYPE_LATEST lib\<rparr>, s)"

subsection \<open>Sequences of requests\<close>

text \<open>
  The three routes of the application. A request to \<open>/\<close> carries the clock reading its
  handler will see. \<open>handle\<close> is the effect of serving one request on the metrics,
  \<open>run\<close> the effect of serving a list of requests one after the other.
\<close>

datatype request =
    is_GetRoot: GetRoot real
  | PostSubmit dict
  | GetMetrics

fun handle :: "exposition \<Rightarrow> request \<Rightarrow> registry \<Rightarrow> registry" where
  "handle lib (GetRoot now) s = snd (root_handler now s)"
| "handle lib (PostSubmit data) s = snd (submit data s)"
| "handle lib GetMetrics s = snd (metrics lib s)"

fun run :: "exposition \<Rightarrow> request list \<Rightarrow> registry \<Rightarrow> registry" where
  "run lib [] s = s"
| "run lib (r # rs) s = run lib rs (handle lib r s)"

section \<open>Properties of the handlers\<close>

lemma Counter_inc_val: "val (Counter_inc m) = val m + 1"
  by (simp add: Counter_inc_def)

text \<open>
  C1. For every non-empty JSON object posted to \<open>/submit\<close>, the handler answers with
  status 200 and the body \<open>{"received_data": o}\<close> holding the payload unchanged, and
  the value of \<open>post_request_count\<close> after the call is its value before plus exactly 1.
\<close>

theorem submit_echo:
  assumes "data \<noteq> []"
  shows "fst (submit data s) = Inr [(''received_data'', JObj data)]
       \<and> http_status (fst (submit data s)) = 200
       \<and> val (POST_REQUEST_COUNT (snd (submit data s))) = val (POST_REQUEST_COUNT s) + 1"
  using assms by (simp add: submit_def http_status_def Counter_inc_val)

theorem submit_echo_witness:
  "[(''k'', JInt 7)] \<noteq> []
   \<and> fst (submit [(''k'', JInt 7)] startup) = Inr [(''received_data'', JObj [(''k'', JInt 7)])]
   \<and> http_status (fst (submit [(''k'', JInt 7)] startup)) = 200
   \<and> val (POST_REQUEST_COUNT (snd (submit [(''k'', JInt 7)] startup))) = 1"
proof -
  have nonempty: "[(''k'', JInt 7)] \<noteq> []"
    by simp
  have zero: "val (POST_REQUEST_COUNT startup) = 0"
    by (simp add: startup_def Counter_def)
  from submit_echo [OF nonempty, of startup] zero nonempty show ?thesis
    by (simp add: http_status_def)
qed

text \<open>
  C2. When \<open>/submit\<close> receives the empty object, the handler fails with HTTP status 400
  and the state of every metric after the call is its state before the call; in
  particular \<open>post_request_count\<close> keeps its value.
\<close>

theorem submit_empty_rejected:
  "fst (submit [] s) = Inl \<lparr>status_code = 400, detail = ''No data provided''\<rparr>
   \<and> http_status (fst (submit [] s)) = 400
   \<and> snd (submit [] s) = s
   \<and> val (POST_REQUEST_COUNT (snd (submit [] s))) = val (POST_REQUEST_COUNT s)"
  by (simp add: submit_def http_status_def)

text \<open>
  C3. Every call of \<open>GET /\<close>, from any state and hence after any number of earlier
  calls, returns the body \<open>{"message": "Hello World"}\<close>, and the value of
  \<open>request_count\<close> after the call is its value before plus exactly 1.
\<close>

theorem root_greets_and_counts:
  "fst (root_handler now s) = [(''message'', JStr ''Hello World'')]
   \<and> val (REQUEST_COUNT (snd (root_handler now s))) = val (REQUEST_COUNT s) + 1"
  by (simp add: root_handler_def Let_def Counter_inc_val)

subsection \<open>The gauge\<close>

lemma py_mod_range:
  assumes "0 < y"
  shows "0 \<le> py_mod x y" and "py_mod x y < y"
proof -
  have "of_int \<lfloor>x / y\<rfloor> * y \<le> x"
    using assms by (rule floor_divide_lower)
  then show "0 \<le> py_mod x y"
    by (simp add: py_mod_def mult.commute)
  have "x < (of_int \<lfloor>x / y\<rfloor> + 1) * y"
    using assms by (rule floor_divide_upper)
  then show "py_mod x y < y"
    by (simp add: py_mod_def algebra_simps)
qed

lemma py_mod_whole:
  assumes "0 \<le> x" and "0 < y"
  shows "x = py_mod x y + y * real (nat \<lfloor>x / y\<rfloor>)"
proof -
  have "0 \<le> x / y"
    using assms by simp
  then have "0 \<le> \<lfloor>x / y\<rfloor>"
    by simp
  then have "real (nat \<lfloor>x / y\<rfloor>) = of_int \<lfloor>x / y\<rfloor>"
    by simp
  then show ?thesis
    by (simp add: py_mod_def)
qed

text \<open>
  A value in the interval that differs from the reading by a whole number of minutes is
  unique: the two facts together say what the reading modulo 60 is.
\<close>

lemma minute_value_unique:
  fixes v w :: real and j k :: nat
  assumes "0 \<le> v" "v < 60" "0 \<le> w" "w < 60" "v + 60 * real j = w + 60 * real k"
  shows "v = w"
proof (cases j k rule: linorder_cases)
  case less
  then have "real j + 1 \<le> real k"
    by linarith
  with assms show ?thesis
    by linarith
next
  case equal
  with assms show ?thesis
    by simp
next
  case greater
  then have "real k + 1 \<le> real j"
    by linarith
  with assms show ?thesis
    by linarith
qed

lemma root_handler_gauge: "val (RANDOM_GAUGE (snd (root_handler now s))) = py_mod now 60"
  by (simp add: root_handler_def Let_def Gauge_set_def)

lemma handle_keeps_gauge:
  "\<not> is_GetRoot r \<Longrightarrow> RANDOM_GAUGE (handle lib r s) = RANDOM_GAUGE s"
  by (cases r) (simp_all add: submit_def metrics_def)

lemma run_keeps_gauge:
  "\<forall>r \<in> set rs. \<not> is_GetRoot r \<Longrightarrow> RANDOM_GAUGE (run lib rs s) = RANDOM_GAUGE s"
  by (induction rs arbitrary: s) (simp_all add: handle_keeps_gauge)

text \<open>
  C4. A call of \<open>GET /\<close> at a clock reading \<open>now\<close> that is not negative sets
  \<open>random_gauge\<close> to \<open>now\<close> modulo 60: the stored value lies in the half-open interval
  from 0 to 60 and differs from \<open>now\<close> by a whole number of minutes, which determines
  it. As long as no further \<open>GET /\<close> is served, whatever other requests are served in
  between, the gauge is that same metric, it is the third metric a scrape reads and
  hands to the text format, and its value is still in the interval.
\<close>

theorem gauge_in_minute:
  assumes "0 \<le> now" and "\<forall>r \<in> set rs. \<not> is_GetRoot r"
  shows "0 \<le> val (RANDOM_GAUGE (snd (root_handler now s)))
       \<and> val (RANDOM_GAUGE (snd (root_handler now s))) < 60
       \<and> (\<exists>k::nat. now = val (RANDOM_GAUGE (snd (root_handler now s))) + 60 * real k)
       \<and> val (RANDOM_GAUGE (snd (root_handler now s))) = py_mod now 60
       \<and> RANDOM_GAUGE (run lib rs (snd (root_handler now s)))
           = RANDOM_GAUGE (snd (root_handler now s))
       \<and> collect (run lib rs (snd (root_handler now s))) ! 2
           = RANDOM_GAUGE (snd (root_handler now s))
       \<and> content (fst (metrics lib (run lib rs (snd (root_handler now s)))))
           = text_format lib
               [REQUEST_COUNT (run lib rs (snd (root_handler now s))),
                POST_REQUEST_COUNT (run lib rs (snd (root_handler now s))),
                RANDOM_GAUGE (snd (root_handler now s))]
       \<and> 0 \<le> val (RANDOM_GAUGE (run lib rs (snd (root_handler now s))))
       \<and> val (RANDOM_GAUGE (run lib rs (snd (root_handler now s)))) < 60"
proof -
  let ?g = "RANDOM_GAUGE (snd (root_handler now s))"
  let ?s' = "run lib rs (snd (root_handler now s))"
  have stored: "val ?g = py_mod now 60"
    by (rule root_handler_gauge)
  have range: "0 \<le> val ?g" "val ?g < 60"
    by (simp_all add: stored py_mod_range)
  have "now = py_mod now 60 + 60 * real (nat \<lfloor>now / 60\<rfloor>)"
    using assms(1) by (rule py_mod_whole) simp
  then have whole: "\<exists>k::nat. now = val ?g + 60 * real k"
    unfolding stored by (rule exI)
  have kept: "RANDOM_GAUGE ?s' = ?g"
    using assms(2) by (rule run_keeps_gauge)
  have third: "collect ?s' ! 2 = ?g"
    by (simp add: collect_def kept)
  have scrape: "content (fst (metrics lib ?s'))
      = text_format lib [REQUEST_COUNT ?s', POST_REQUEST_COUNT ?s', ?g]"
    by (simp add: metrics_def generate_latest_def collect_def kept)
  have range': "0 \<le> val (RANDOM_GAUGE ?s')" "val (RANDOM_GAUGE ?s') < 60"
    using range by (simp_all only: kept)
  show ?thesis
    using range whole stored kept third scrape range' by blast
qed

theorem gauge_in_minute_witness:
  "(0::real) \<le> 251 / 2
   \<and> filter is_GetRoot [PostSubmit [(''k'', JInt 7)], GetMetrics] = []
   \<and> val (RANDOM_GAUGE (snd (root_handler (251 / 2) startup))) = 11 / 2
   \<and> (251 / 2 :: real) = 11 / 2 + 60 * real 2
   \<and> val (RANDOM_GAUGE
        (run \<lparr>text_format = (\<lambda>ms. []), CONTENT_TYPE_LATEST = ''text/plain''\<rparr>
          [PostSubmit [(''k'', JInt 7)], GetMetrics] (snd (root_handler (251 / 2) startup))))
       = 11 / 2"
proof -
  have nonneg: "(0::real) \<le> 251 / 2"
    by simp
  have others: "\<forall>r \<in> set [PostSubmit [(''k'', JInt 7)], GetMetrics]. \<not> is_GetRoot r"
    by simp
  have reading: "py_mod (251 / 2) 60 = 11 / 2"
    by (simp add: py_mod_def)
  have "val (RANDOM_GAUGE (snd (root_handler (251 / 2) startup))) = py_mod (251 / 2) 60"
    and "RANDOM_GAUGE
        (run \<lparr>text_format = (\<lambda>ms. []), CONTENT_TYPE_LATEST = ''text/plain''\<rparr>
          [PostSubmit [(''k'', JInt 7)], GetMetrics] (snd (root_handler (251 / 2) startup)))
       = RANDOM_GAUGE (snd (root_handler (251 / 2) startup))"
    using gauge_in_minute [OF nonneg others, of startup
        "\<lparr>text_format = (\<lambda>ms. []), CONTENT_TYPE_LATEST = ''text/plain''\<rparr>"]
    by blast+
  then show ?thesis
    by (simp add: reading)
qed

subsection \<open>The counters\<close>

lemma handle_request_count:
  "val (REQUEST_COUNT (handle lib r s)) =
     (if is_GetRoot r then val (REQUEST_COUNT s) + 1 else val (REQUEST_COUNT s))"
  by (cases r) (simp_all add: root_handler_def Let_def submit_def metrics_def Counter_inc_val)

lemma handle_post_request_count:
  "val (POST_REQUEST_COUNT (handle lib r s)) = val (POST_REQUEST_COUNT s)
   \<or> val (POST_REQUEST_COUNT (handle lib r s)) = val (POST_REQUEST_COUNT s) + 1"
  by (cases r) (simp_all add: root_handler_def Let_def submit_def metrics_def Counter_inc_val)

lemma run_request_count_mono: "val (REQUEST_COUNT s) \<le> val (REQUEST_COUNT (run lib rs s))"
proof (induction rs arbitrary: s)
  case Nil
  show ?case by simp
next
  case (Cons r rs)
  have "val (REQUEST_COUNT s) \<le> val (REQUEST_COUNT (handle lib r s))"
    by (simp add: handle_request_count)
  also have "\<dots> \<le> val (REQUEST_COUNT (run lib rs (handle lib r s)))"
    by (rule Cons.IH)
  finally show ?case by simp
qed

lemma run_post_request_count_mono:
  "val (POST_REQUEST_COUNT s) \<le> val (POST_REQUEST_COUNT (run lib rs s))"
proof (induction rs arbitrary: s)
  case Nil
  show ?case by simp
next
  case (Cons r rs)
  have "val (POST_REQUEST_COUNT s) \<le> val (POST_REQUEST_COUNT (handle lib r s))"
    using handle_post_request_count [of lib r s] by auto
  also have "\<dots> \<le> val (POST_REQUEST_COUNT (run lib rs (handle lib r s)))"
    by (rule Cons.IH)
  finally show ?case by simp
qed

text \<open>
  C5. Both counters are 0 at process start. Serving one request, whatever the route and
  its argument, leaves a counter unchanged or adds exactly 1 to it, and over every
  sequence of requests neither counter ever ends below the value it started from.
\<close>

theorem counters_never_decrease:
  "val (REQUEST_COUNT startup) = 0
   \<and> val (POST_REQUEST_COUNT startup) = 0
   \<and> (val (REQUEST_COUNT (handle lib r s)) = val (REQUEST_COUNT s)
      \<or> val (REQUEST_COUNT (handle lib r s)) = val (REQUEST_COUNT s) + 1)
   \<and> (val (POST_REQUEST_COUNT (handle lib r s)) = val (POST_REQUEST_COUNT s)
      \<or> val (POST_REQUEST_COUNT (handle lib r s)) = val (POST_REQUEST_COUNT s) + 1)
   \<and> val (REQUEST_COUNT s) \<le> val (REQUEST_COUNT (run lib rs s))
   \<and> val (POST_REQUEST_COUNT s) \<le> val (POST_REQUEST_COUNT (run lib rs s))"
proof -
  have "val (REQUEST_COUNT startup) = 0" "val (POST_REQUEST_COUNT startup) = 0"
    by (simp_all add: startup_def Counter_def)
  moreover have "val (REQUEST_COUNT (handle lib r s)) = val (REQUEST_COUNT s)
      \<or> val (REQUEST_COUNT (handle lib r s)) = val (REQUEST_COUNT s) + 1"
    by (simp add: handle_request_count)
  ultimately show ?thesis
    using handle_post_request_count [of lib r s]
      run_request_count_mono [of s lib rs] run_post_request_count_mono [of s lib rs]
    by blast
qed

text \<open>
  Served one after the other from any state, \<open>n\<close> calls of \<open>GET /\<close> add exactly \<open>n\<close>
  to \<open>request_count\<close>, whatever the clock readings are.
\<close>

lemma run_roots_count:
  "val (REQUEST_COUNT (run lib (map GetRoot ts) s)) = val (REQUEST_COUNT s) + real (length ts)"
  by (induction ts arbitrary: s) (simp_all add: root_handler_def Let_def Counter_inc_val)

subsection \<open>Frame conditions\<close>


end
